theory Spec2Isabelle
  imports Main
begin

section \<open>The run endpoint: a Worker that dispatches a workflow run\<close>

text \<open>
  The program is the single handler \<^verbatim>\<open>fetch(request, env)\<close> of
  \<^verbatim>\<open>workers/run-endpoint/src/index.js\<close>. The handler is a straight line of checks, each
  of which either returns a response or falls through to the next one, followed by one
  call of the runtime's global \<^verbatim>\<open>fetch\<close>. The embedding below follows the source
  statement by statement. What the JavaScript runtime contributes (strings, values read
  from JSON, the conversions \<^verbatim>\<open>String\<close>, \<^verbatim>\<open>||\<close>, \<^verbatim>\<open>trim\<close>, \<^verbatim>\<open>toUpperCase\<close>,
  \<^verbatim>\<open>RegExp.test\<close>, \<^verbatim>\<open>JSON.stringify\<close>) is modelled after ECMA-262.
\<close>

subsection \<open>Strings\<close>

text \<open>
  A JavaScript string is a sequence of UTF-16 code units. A code unit is modelled as a
  natural number (below 65536); \<open>str\<close> turns an ASCII literal into such a sequence.
\<close>

type_synonym jsstr = "nat list"

definition str :: "string \<Rightarrow> jsstr" where
  "str cs = map of_char cs"

text \<open>\<^verbatim>\<open>Array.prototype.join\<close> on strings already converted.\<close>

fun join :: "jsstr \<Rightarrow> jsstr list \<Rightarrow> jsstr" where
  "join sep [] = []"
| "join sep [s] = s"
| "join sep (s # t # ts) = s @ sep @ join sep (t # ts)"

text \<open>
  \<^verbatim>\<open>String.prototype.trim\<close> removes, at both ends, the code points of the productions
  WhiteSpace (TAB, VT, FF, ZWNBSP and the category Zs) and LineTerminator (LF, CR, LS, PS).
\<close>

definition is_white_space :: "nat \<Rightarrow> bool" where
  "is_white_space c =
     (c = 0x9 \<or> c = 0xB \<or> c = 0xC \<or> c = 0x20 \<or> c = 0xA0 \<or> c = 0x1680
      \<or> (0x2000 \<le> c \<and> c \<le> 0x200A) \<or> c = 0x202F \<or> c = 0x205F \<or> c = 0x3000
      \<or> c = 0xFEFF)"

definition is_line_terminator :: "nat \<Rightarrow> bool" where
  "is_line_terminator c = (c = 0xA \<or> c = 0xD \<or> c = 0x2028 \<or> c = 0x2029)"

definition trim :: "jsstr \<Rightarrow> jsstr" where
  "trim s =
     (let ws = (\<lambda>c. is_white_space c \<or> is_line_terminator c)
      in rev (dropWhile ws (rev (dropWhile ws s))))"

text \<open>
  \<^verbatim>\<open>String.prototype.toUpperCase\<close> maps through the Unicode case tables of the engine.
  On a string of ASCII code units the result is fixed: the letters a-z go to A-Z and
  nothing else changes. For any other string the tables of the engine decide; they are
  not part of the repository and enter as the parameter \<open>unicode_upper\<close>.
\<close>

definition ascii_upper :: "nat \<Rightarrow> nat" where
  "ascii_upper c = (if 0x61 \<le> c \<and> c \<le> 0x7A then c - 0x20 else c)"

definition toUpperCase :: "(jsstr \<Rightarrow> jsstr) \<Rightarrow> jsstr \<Rightarrow> jsstr" where
  "toUpperCase unicode_upper s =
     (if list_all (\<lambda>c. c < 0x80) s then map ascii_upper s else unicode_upper s)"

text \<open>
  \<^verbatim>\<open>/^[A-Z]{3}$/.test(s)\<close>: the expression has no flags, so \<^verbatim>\<open>^\<close> and \<^verbatim>\<open>$\<close> match
  only at the two ends of the input and the class is the range of code units 0x41-0x5A.
\<close>

definition is_AZ :: "nat \<Rightarrow> bool" where
  "is_AZ c = (0x41 \<le> c \<and> c \<le> 0x5A)"

definition test_AZ3 :: "jsstr \<Rightarrow> bool" where
  "test_AZ3 s = (length s = 3 \<and> list_all is_AZ s)"

subsection \<open>Values\<close>

text \<open>
  The values the handler meets: what \<^verbatim>\<open>request.json()\<close> can resolve to, and
  \<^verbatim>\<open>undefined\<close> for a property that is not there. A Number is represented by its
  rendering under \<^verbatim>\<open>Number::toString\<close> (the shortest decimal that reads back as the
  same double, or \<^verbatim>\<open>Infinity\<close>, \<^verbatim>\<open>-Infinity\<close>, \<^verbatim>\<open>NaN\<close>), which determines the
  Number up to the sign of zero; the handler observes a Number only through this
  rendering and through its truthiness. An object is the list of its own properties in
  the order of \<^verbatim>\<open>[[OwnPropertyKeys]]\<close>, each key once.
\<close>

datatype jsval =
    JUndefined
  | JNull
  | JBool bool
  | JNum jsstr
  | JStr jsstr
  | JArr "jsval list"
  | JObj "(jsstr \<times> jsval) list"

datatype js_error = TypeError | SyntaxError | OtherError

text \<open>
  The property read \<^verbatim>\<open>body.iata\<close>. Reading a property of \<^verbatim>\<open>null\<close> or
  \<^verbatim>\<open>undefined\<close> throws a TypeError. An object yields its own property of that name;
  neither \<^verbatim>\<open>Object.prototype\<close> nor the prototypes of the primitive wrappers and of
  arrays define \<^verbatim>\<open>iata\<close>, so every other read is \<^verbatim>\<open>undefined\<close>.
\<close>

fun get_iata :: "jsval \<Rightarrow> js_error + jsval" where
  "get_iata JUndefined = Inl TypeError"
| "get_iata JNull = Inl TypeError"
| "get_iata (JObj ps) =
     Inr (case map_of ps (str ''iata'') of None \<Rightarrow> JUndefined | Some v \<Rightarrow> v)"
| "get_iata v = Inr JUndefined"

text \<open>\<^verbatim>\<open>ToBoolean\<close>, which decides \<^verbatim>\<open>||\<close>.\<close>

fun ToBoolean :: "jsval \<Rightarrow> bool" where
  "ToBoolean JUndefined = False"
| "ToBoolean JNull = False"
| "ToBoolean (JBool b) = b"
| "ToBoolean (JNum r) = (r \<noteq> str ''0'' \<and> r \<noteq> str ''NaN'')"
| "ToBoolean (JStr s) = (s \<noteq> [])"
| "ToBoolean (JArr xs) = True"
| "ToBoolean (JObj ps) = True"

text \<open>
  \<^verbatim>\<open>String(v)\<close>, that is \<^verbatim>\<open>ToString\<close>. An array is joined with commas, an element
  that is \<^verbatim>\<open>undefined\<close> or \<^verbatim>\<open>null\<close> counting as the empty string. An object goes
  through \<^verbatim>\<open>OrdinaryToPrimitive\<close>: an own property \<^verbatim>\<open>toString\<close> read from JSON is
  never callable and hides \<^verbatim>\<open>Object.prototype.toString\<close>, and \<^verbatim>\<open>valueOf\<close> then
  yields no primitive, so the conversion throws a TypeError; without such a property
  the result is \<^verbatim>\<open>[object Object]\<close>.
\<close>

fun ToString :: "jsval \<Rightarrow> js_error + jsstr"
  and ToString_elements :: "jsval list \<Rightarrow> js_error + jsstr list" where
  "ToString JUndefined = Inr (str ''undefined'')"
| "ToString JNull = Inr (str ''null'')"
| "ToString (JBool b) = Inr (if b then str ''true'' else str ''false'')"
| "ToString (JNum r) = Inr r"
| "ToString (JStr s) = Inr s"
| "ToString (JArr xs) =
     (case ToString_elements xs of
        Inl e \<Rightarrow> Inl e
      | Inr ss \<Rightarrow> Inr (join (str '','') ss))"
| "ToString (JObj ps) =
     (if map_of ps (str ''toString'') = None then Inr (str ''[object Object]'')
      else Inl TypeError)"
| "ToString_elements [] = Inr []"
| "ToString_elements (x # xs) =
     (case (if x = JUndefined \<or> x = JNull then Inr [] else ToString x) of
        Inl e \<Rightarrow> Inl e
      | Inr s \<Rightarrow>
          (case ToString_elements xs of
             Inl e \<Rightarrow> Inl e
           | Inr ss \<Rightarrow> Inr (s # ss)))"

text \<open>
  Line 28 of the source:
  \<^verbatim>\<open>const iata = String(body.iata || "").trim().toUpperCase();\<close>
\<close>

definition normalize_iata :: "(jsstr \<Rightarrow> jsstr) \<Rightarrow> jsval \<Rightarrow> js_error + jsstr" where
  "normalize_iata unicode_upper body =
     (case get_iata body of
        Inl e \<Rightarrow> Inl e
      | Inr v \<Rightarrow>
          (case ToString (if ToBoolean v then v else JStr []) of
             Inl e \<Rightarrow> Inl e
           | Inr s \<Rightarrow> Inr (toUpperCase unicode_upper (trim s))))"

subsection \<open>\<^verbatim>\<open>JSON.stringify\<close>\<close>

text \<open>
  \<^verbatim>\<open>QuoteJSONString\<close>: the string between double quotes, with the two-character
  escapes for backspace, tab, line feed, form feed, carriage return, the double quote
  and the backslash, and \<^verbatim>\<open>\uXXXX\<close> (lower-case hexadecimal) for every other code
  unit below 0x20 and for every surrogate that is not part of a pair.
\<close>

definition hex_digit :: "nat \<Rightarrow> nat" where
  "hex_digit d = (if d < 10 then 0x30 + d else 0x61 + (d - 10))"

definition UnicodeEscape :: "nat \<Rightarrow> jsstr" where
  "UnicodeEscape c =
     [0x5C, 0x75, hex_digit (c div 4096 mod 16), hex_digit (c div 256 mod 16),
      hex_digit (c div 16 mod 16), hex_digit (c mod 16)]"

definition is_leading_surrogate :: "nat \<Rightarrow> bool" where
  "is_leading_surrogate c = (0xD800 \<le> c \<and> c \<le> 0xDBFF)"

definition is_trailing_surrogate :: "nat \<Rightarrow> bool" where
  "is_trailing_surrogate c = (0xDC00 \<le> c \<and> c \<le> 0xDFFF)"

fun quote_units :: "jsstr \<Rightarrow> jsstr" where
  "quote_units [] = []"
| "quote_units (c # cs) =
     (if c = 0x8 then [0x5C, 0x62] @ quote_units cs
      else if c = 0x9 then [0x5C, 0x74] @ quote_units cs
      else if c = 0xA then [0x5C, 0x6E] @ quote_units cs
      else if c = 0xC then [0x5C, 0x66] @ quote_units cs
      else if c = 0xD then [0x5C, 0x72] @ quote_units cs
      else if c = 0x22 then [0x5C, 0x22] @ quote_units cs
      else if c = 0x5C then [0x5C, 0x5C] @ quote_units cs
      else if c < 0x20 then UnicodeEscape c @ quote_units cs
      else if is_leading_surrogate c then
        (case cs of
           [] \<Rightarrow> UnicodeEscape c
         | d # ds \<Rightarrow>
             if is_trailing_surrogate d then c # d # quote_units ds
             else UnicodeEscape c @ quote_units cs)
      else if is_trailing_surrogate c then UnicodeEscape c @ quote_units cs
      else c # quote_units cs)"

definition QuoteJSONString :: "jsstr \<Rightarrow> jsstr" where
  "QuoteJSONString s = [0x22] @ quote_units s @ [0x22]"

text \<open>
  \<^verbatim>\<open>SerializeJSONProperty\<close> without replacer and indentation. The result
  \<open>None\<close> stands for \<^verbatim>\<open>undefined\<close>: a property with that value is left out of
  an object and written \<^verbatim>\<open>null\<close> in an array. No value here has a \<^verbatim>\<open>toJSON\<close>
  method.
\<close>

fun SerializeJSONProperty :: "jsval \<Rightarrow> jsstr option"
  and SerializeJSONArray :: "jsval list \<Rightarrow> jsstr list"
  and SerializeJSONObject :: "(jsstr \<times> jsval) list \<Rightarrow> jsstr list" where
  "SerializeJSONProperty JUndefined = None"
| "SerializeJSONProperty JNull = Some (str ''null'')"
| "SerializeJSONProperty (JBool b) = Some (if b then str ''true'' else str ''false'')"
| "SerializeJSONProperty (JNum r) =
     Some (if r = str ''Infinity'' \<or> r = str ''-Infinity'' \<or> r = str ''NaN''
           then str ''null'' else r)"
| "SerializeJSONProperty (JStr s) = Some (QuoteJSONString s)"
| "SerializeJSONProperty (JArr xs) =
     Some (str ''['' @ join (str '','') (SerializeJSONArray xs) @ str '']'')"
| "SerializeJSONProperty (JObj ps) =
     Some (str ''{'' @ join (str '','') (SerializeJSONObject ps) @ str ''}'')"
| "SerializeJSONArray [] = []"
| "SerializeJSONArray (x # xs) =
     (case SerializeJSONProperty x of
        None \<Rightarrow> str ''null'' # SerializeJSONArray xs
      | Some t \<Rightarrow> t # SerializeJSONArray xs)"
| "SerializeJSONObject [] = []"
| "SerializeJSONObject (p # ps) =
     (case SerializeJSONProperty (snd p) of
        None \<Rightarrow> SerializeJSONObject ps
      | Some t \<Rightarrow> (QuoteJSONString (fst p) @ str '':'' @ t) # SerializeJSONObject ps)"

definition JSON_stringify :: "jsval \<Rightarrow> jsstr option" where
  "JSON_stringify v = SerializeJSONProperty v"

text \<open>\<^verbatim>\<open>Number::toString\<close> of a non-negative integer below \<open>10^21\<close>: its decimal digits.\<close>

fun decimal :: "nat \<Rightarrow> jsstr" where
  "decimal n = (if n < 10 then [0x30 + n] else decimal (n div 10) @ [0x30 + n mod 10])"

declare decimal.simps [simp del]

subsection \<open>The request, the environment and the runtime\<close>

text \<open>
  Of the inbound request the handler reads the method and, once, the body through
  \<^verbatim>\<open>request.json()\<close>, which either resolves to a value or rejects.
\<close>

record request =
  "method" :: jsstr
  json :: "js_error + jsval"

text \<open>The five bindings; \<open>None\<close> is a binding that is not set (\<^verbatim>\<open>undefined\<close>).\<close>

record env =
  GH_OWNER :: "jsstr option"
  GH_REPO :: "jsstr option"
  GH_WORKFLOW_FILE :: "jsstr option"
  GH_WORKFLOW_REF :: "jsstr option"
  GH_TOKEN :: "jsstr option"

text \<open>What \<^verbatim>\<open>new Response(body, {status, headers})\<close> is built from.\<close>

record response =
  resp_body :: "jsstr option"
  status :: nat
  headers :: "(jsstr \<times> jsstr) list"

text \<open>The arguments of the outbound call \<^verbatim>\<open>fetch(url, {method, headers, body})\<close>.\<close>

record outbound =
  out_url :: jsstr
  out_method :: jsstr
  out_headers :: "(jsstr \<times> jsstr) list"
  out_body :: "jsstr option"

text \<open>
  The response \<^verbatim>\<open>r\<close> of the outbound call: its status (an integer of at most three
  digits) and what \<^verbatim>\<open>r.text()\<close> settles to. \<^verbatim>\<open>r.ok\<close> is true for a status from
  200 to 299.
\<close>

record upstream =
  r_status :: nat
  r_text :: "js_error + jsstr"

definition r_ok :: "upstream \<Rightarrow> bool" where
  "r_ok r = (200 \<le> r_status r \<and> r_status r \<le> 299)"

text \<open>
  The runtime around the handler: the case tables behind \<^verbatim>\<open>toUpperCase\<close> and the
  global \<^verbatim>\<open>fetch\<close>, which answers an outbound call with a response or rejects.
\<close>

record runtime =
  unicode_upper :: "jsstr \<Rightarrow> jsstr"
  global_fetch :: "outbound \<Rightarrow> js_error + upstream"

text \<open>
  A run of the handler ends in a response or in an exception that nothing catches;
  with it comes the list of outbound calls the run has made.
\<close>

datatype completion = Returns response | Throws js_error

text \<open>
  A binding in a condition (\<^verbatim>\<open>!owner\<close>), in a template literal
  (\<^verbatim>\<open>${owner}\<close>) and as a property value (\<^verbatim>\<open>{ ref }\<close>).
\<close>

definition truthy :: "jsstr option \<Rightarrow> bool" where
  "truthy b = (case b of None \<Rightarrow> False | Some s \<Rightarrow> s \<noteq> [])"

definition subst :: "jsstr option \<Rightarrow> jsstr" where
  "subst b = (case b of None \<Rightarrow> str ''undefined'' | Some s \<Rightarrow> s)"

definition binding_value :: "jsstr option \<Rightarrow> jsval" where
  "binding_value b = (case b of None \<Rightarrow> JUndefined | Some s \<Rightarrow> JStr s)"

subsection \<open>The handler\<close>

definition cors :: "(jsstr \<times> jsstr) list" where
  "cors =
     [(str ''Access-Control-Allow-Origin'', str ''*''),
      (str ''Access-Control-Allow-Methods'', str ''POST,OPTIONS''),
      (str ''Access-Control-Allow-Headers'', str ''content-type'')]"

definition fetch :: "runtime \<Rightarrow> request \<Rightarrow> env \<Rightarrow> completion \<times> outbound list" where
  "fetch rt request env =
     (if method request = str ''OPTIONS'' then
        (Returns \<lparr>resp_body = None, status = 204, headers = cors\<rparr>, [])
      else if method request \<noteq> str ''POST'' then
        (Returns
           \<lparr>resp_body = JSON_stringify
              (JObj [(str ''ok'', JBool False), (str ''error'', JStr (str ''POST only''))]),
            status = 405,
            headers = cors @ [(str ''content-type'', str ''application/json'')]\<rparr>, [])
      else
        case json request of
          Inl e \<Rightarrow>
            (Returns
               \<lparr>resp_body = JSON_stringify
                  (JObj [(str ''ok'', JBool False), (str ''error'', JStr (str ''Invalid JSON''))]),
                status = 400,
                headers = cors @ [(str ''content-type'', str ''application/json'')]\<rparr>, [])
        | Inr body \<Rightarrow>
            (case normalize_iata (unicode_upper rt) body of
               Inl e \<Rightarrow> (Throws e, [])
             | Inr iata \<Rightarrow>
                 if \<not> test_AZ3 iata then
                   (Returns
                      \<lparr>resp_body = JSON_stringify
                         (JObj [(str ''ok'', JBool False),
                                (str ''error'', JStr (str ''IATA must be 3 letters''))]),
                       status = 400,
                       headers = cors @ [(str ''content-type'', str ''application/json'')]\<rparr>, [])
                 else
                   let owner = GH_OWNER env;
                       repo = GH_REPO env;
                       workflow = GH_WORKFLOW_FILE env;
                       ref = GH_WORKFLOW_REF env;
                       token = GH_TOKEN env
                   in
                     if \<not> truthy owner \<or> \<not> truthy repo \<or> \<not> truthy workflow
                        \<or> \<not> truthy ref \<or> \<not> truthy token then
                       (Returns
                          \<lparr>resp_body = JSON_stringify
                             (JObj [(str ''ok'', JBool False),
                                    (str ''error'', JStr (str ''Missing env vars/secrets''))]),
                           status = 500,
                           headers = cors @ [(str ''content-type'', str ''application/json'')]\<rparr>,
                        [])
                     else
                       let url = str ''https://api.github.com/repos/'' @ subst owner @ str ''/''
                                 @ subst repo @ str ''/actions/workflows/'' @ subst workflow
                                 @ str ''/dispatches'';
                           call =
                             \<lparr>out_url = url,
                              out_method = str ''POST'',
                              out_headers =
                                [(str ''Authorization'', str ''Bearer '' @ subst token),
                                 (str ''Accept'', str ''application/vnd.github+json''),
                                 (str ''User-Agent'', str ''aviation-iia-run-endpoint''),
                                 (str ''Content-Type'', str ''application/json'')],
                              out_body = JSON_stringify
                                (JObj [(str ''ref'', binding_value ref),
                                       (str ''inputs'', JObj [(str ''iata'', JStr iata)])])\<rparr>
                       in
                         case global_fetch rt call of
                           Inl e \<Rightarrow> (Throws e, [call])
                         | Inr r \<Rightarrow>
                             if \<not> r_ok r then
                               let text = (case r_text r of Inl e \<Rightarrow> [] | Inr t \<Rightarrow> t)
                               in
                                 (Returns
                                    \<lparr>resp_body = JSON_stringify
                                       (JObj [(str ''ok'', JBool False),
                                              (str ''error'', JStr (str ''GitHub dispatch failed'')),
                                              (str ''status'', JNum (decimal (r_status r))),
                                              (str ''detail'', JStr text)]),
                                     status = 502,
                                     headers =
                                       cors @ [(str ''content-type'', str ''application/json'')]\<rparr>,
                                  [call])
                             else
                               (Returns
                                  \<lparr>resp_body = JSON_stringify
                                     (JObj [(str ''ok'', JBool True),
                                            (str ''dispatched'', JBool True),
                                            (str ''iata'', JStr iata)]),
                                   status = 200,
                                   headers =
                                     cors @ [(str ''content-type'', str ''application/json'')]\<rparr>,
                                [call])))"

subsection \<open>The outbound contract, in the words of the specification\<close>

text \<open>
  The call the specification promises: a POST to the workflow-dispatch address of the
  repository, with the four headers and the JSON text
  \<^verbatim>\<open>{"ref":<ref>,"inputs":{"iata":"<code>"}}\<close>, the reference written as a JSON string.
  It is compared with the call the handler issues.
\<close>

definition dispatch_contract ::
  "jsstr \<Rightarrow> jsstr \<Rightarrow> jsstr \<Rightarrow> jsstr \<Rightarrow> jsstr \<Rightarrow> jsstr \<Rightarrow> outbound" where
  \<open>dispatch_contract owner repo workflow ref token code =
     \<lparr>out_url = str ''https://api.github.com/repos/'' @ owner @ str ''/'' @ repo
                @ str ''/actions/workflows/'' @ workflow @ str ''/dispatches'',
      out_method = str ''POST'',
      out_headers =
        [(str ''Authorization'', str ''Bearer '' @ token),
         (str ''Accept'', str ''application/vnd.github+json''),
         (str ''User-Agent'', str ''aviation-iia-run-endpoint''),
         (str ''Content-Type'', str ''application/json'')],
      out_body = Some (str ''{"ref":'' @ QuoteJSONString ref @ str '',"inputs":{"iata":"''
                       @ code @ str ''"}}'')\<rparr>\<close>

text \<open>An outbound call with its \<^verbatim>\<open>Authorization\<close> header taken away.\<close>

definition without_authorization :: "outbound \<Rightarrow> outbound" where
  "without_authorization c =
     c\<lparr>out_headers := filter (\<lambda>h. fst h \<noteq> str ''Authorization'') (out_headers c)\<rparr>"

subsection \<open>Concrete inputs\<close>

text \<open>
  A configuration with all five bindings set (the workflow file and the reference are
  the examples given in the comments of the source), a runtime whose upstream always gives
  the same answer, and a POST request whose body is an object with the one field
  \<^verbatim>\<open>iata\<close>.
\<close>

definition demo_env :: env where
  "demo_env =
     \<lparr>GH_OWNER = Some (str ''motstothartarup''),
      GH_REPO = Some (str ''Aviation-Iia-Master-Repository''),
      GH_WORKFLOW_FILE = Some (str ''run-both.yml''),
      GH_WORKFLOW_REF = Some (str ''global_integration''),
      GH_TOKEN = Some (str ''ghp_example'')\<rparr>"

definition demo_runtime :: "js_error + upstream \<Rightarrow> runtime" where
  "demo_runtime answer = \<lparr>unicode_upper = (\<lambda>s. s), global_fetch = (\<lambda>call. answer)\<rparr>"

definition demo_request :: "jsval \<Rightarrow> request" where
  "demo_request v = \<lparr>method = str ''POST'', json = Inr (JObj [(str ''iata'', v)])\<rparr>"

definition demo_contract :: "jsstr \<Rightarrow> outbound" where
  "demo_contract code =
     dispatch_contract (str ''motstothartarup'') (str ''Aviation-Iia-Master-Repository'')
       (str ''run-both.yml'') (str ''global_integration'') (str ''ghp_example'') code"

section \<open>Properties of the runtime functions\<close>

lemmas eval_defs =
  JSON_stringify_def QuoteJSONString_def str_def is_leading_surrogate_def
  is_trailing_surrogate_def

lemma post_not_options: "str ''POST'' \<noteq> str ''OPTIONS''"
  by (simp add: str_def)

lemma demo_strings_nonempty:
  "str ''motstothartarup'' \<noteq> []" "str ''Aviation-Iia-Master-Repository'' \<noteq> []"
  "str ''run-both.yml'' \<noteq> []" "str ''global_integration'' \<noteq> []" "str ''ghp_example'' \<noteq> []"
  by (simp_all add: str_def)

text \<open>The example of the specification: \<^verbatim>\<open>" jfk "\<close> is read as \<^verbatim>\<open>"JFK"\<close>.\<close>

lemma normalize_jfk:
  "normalize_iata u (JObj [(str ''iata'', JStr (str '' jfk ''))]) = Inr (str ''JFK'')"
  by (simp add: normalize_iata_def str_def trim_def toUpperCase_def ascii_upper_def
      is_white_space_def is_line_terminator_def)

lemma normalize_ab1:
  "normalize_iata u (JObj [(str ''iata'', JStr (str ''ab1''))]) = Inr (str ''AB1'')"
  by (simp add: normalize_iata_def str_def trim_def toUpperCase_def ascii_upper_def
      is_white_space_def is_line_terminator_def)

lemma test_JFK: "test_AZ3 (str ''JFK'')"
  by (simp add: test_AZ3_def is_AZ_def str_def)

lemma test_AB1: "\<not> test_AZ3 (str ''AB1'')"
  by (simp add: test_AZ3_def is_AZ_def str_def)

lemma AZ3_letters: "test_AZ3 code \<Longrightarrow> list_all is_AZ code"
  by (simp add: test_AZ3_def)

text \<open>A string of the letters A-Z needs no escape.\<close>

lemma quote_units_AZ: "list_all is_AZ s \<Longrightarrow> quote_units s = s"
  by (induction s) (auto simp: is_AZ_def is_leading_surrogate_def is_trailing_surrogate_def)

text \<open>A decimal rendering consists of digits, so it is none of the non-finite renderings.\<close>

lemma decimal_digits: "list_all (\<lambda>c. 0x30 \<le> c \<and> c \<le> 0x39) (decimal n)"
proof (induction n rule: decimal.induct)
  case (1 n)
  show ?case
  proof (cases "n < 10")
    case True
    then show ?thesis by (subst decimal.simps) simp
  next
    case False
    then have "list_all (\<lambda>c. 0x30 \<le> c \<and> c \<le> 0x39) (decimal (n div 10))"
      using "1.IH" by simp
    moreover have "n mod 10 < 10" by simp
    ultimately show ?thesis using False
      by (subst decimal.simps) simp
  qed
qed

lemma decimal_finite:
  "decimal n \<noteq> str ''Infinity'' \<and> decimal n \<noteq> str ''-Infinity'' \<and> decimal n \<noteq> str ''NaN''"
  using decimal_digits [of n] by (auto simp: str_def)

lemma decimal_404: "decimal 404 = str ''404''"
  by (simp add: decimal.simps str_def)

text \<open>The texts of the bodies the handler builds.\<close>

lemma body_405:
  \<open>JSON_stringify (JObj [(str ''ok'', JBool False), (str ''error'', JStr (str ''POST only''))])
     = Some (str ''{"ok":false,"error":"POST only"}'')\<close>
  by (simp add: eval_defs)

lemma body_invalid_json:
  \<open>JSON_stringify (JObj [(str ''ok'', JBool False), (str ''error'', JStr (str ''Invalid JSON''))])
     = Some (str ''{"ok":false,"error":"Invalid JSON"}'')\<close>
  by (simp add: eval_defs)

lemma body_iata:
  \<open>JSON_stringify (JObj [(str ''ok'', JBool False),
       (str ''error'', JStr (str ''IATA must be 3 letters''))])
     = Some (str ''{"ok":false,"error":"IATA must be 3 letters"}'')\<close>
  by (simp add: eval_defs)

lemma body_500:
  \<open>JSON_stringify (JObj [(str ''ok'', JBool False),
       (str ''error'', JStr (str ''Missing env vars/secrets''))])
     = Some (str ''{"ok":false,"error":"Missing env vars/secrets"}'')\<close>
  by (simp add: eval_defs)

lemma body_200:
  \<open>list_all is_AZ iata \<Longrightarrow>
   JSON_stringify (JObj [(str ''ok'', JBool True), (str ''dispatched'', JBool True),
       (str ''iata'', JStr iata)])
     = Some (str ''{"ok":true,"dispatched":true,"iata":"'' @ iata @ str ''"}'')\<close>
  by (simp add: eval_defs quote_units_AZ)

lemma body_502:
  \<open>JSON_stringify (JObj [(str ''ok'', JBool False),
       (str ''error'', JStr (str ''GitHub dispatch failed'')),
       (str ''status'', JNum (decimal n)), (str ''detail'', JStr text)])
     = Some (str ''{"ok":false,"error":"GitHub dispatch failed","status":'' @ decimal n
             @ str '',"detail":'' @ QuoteJSONString text @ str ''}'')\<close>
  using decimal_finite [of n]
  by (simp add: JSON_stringify_def) (simp add: eval_defs)

lemma body_dispatch:
  \<open>list_all is_AZ iata \<Longrightarrow>
   JSON_stringify (JObj [(str ''ref'', JStr ref),
       (str ''inputs'', JObj [(str ''iata'', JStr iata)])])
     = Some (str ''{"ref":'' @ QuoteJSONString ref @ str '',"inputs":{"iata":"'' @ iata
             @ str ''"}}'')\<close>
  by (simp add: eval_defs quote_units_AZ)

text \<open>The call written in the handler is the call of the contract.\<close>

lemma call_eq:
  \<open>list_all is_AZ code \<Longrightarrow>
   \<lparr>out_url = str ''https://api.github.com/repos/'' @ owner @ str ''/'' @ repo
                @ str ''/actions/workflows/'' @ workflow @ str ''/dispatches'',
      out_method = str ''POST'',
      out_headers =
        [(str ''Authorization'', str ''Bearer '' @ token),
         (str ''Accept'', str ''application/vnd.github+json''),
         (str ''User-Agent'', str ''aviation-iia-run-endpoint''),
         (str ''Content-Type'', str ''application/json'')],
      out_body = JSON_stringify (JObj [(str ''ref'', JStr ref),
                                       (str ''inputs'', JObj [(str ''iata'', JStr code)])])\<rparr>
     = dispatch_contract owner repo workflow ref token code\<close>
  by (simp add: dispatch_contract_def body_dispatch)

text \<open>
  Validation of the code: when line 28 yields a string that is not three letters A-Z,
  the answer is status 400, before the configuration is looked at.
\<close>

lemma invalid_iata_rejected:
  assumes "normalize_iata (unicode_upper rt) b = Inr code" and "\<not> test_AZ3 code"
  shows \<open>fetch rt \<lparr>method = str ''POST'', json = Inr b\<rparr> env =
           (Returns \<lparr>resp_body = Some (str ''{"ok":false,"error":"IATA must be 3 letters"}''),
                      status = 400,
                      headers = cors @ [(str ''content-type'', str ''application/json'')]\<rparr>,
            [])\<close>
  using assms by (simp add: fetch_def post_not_options body_iata)

section \<open>The claims\<close>

text \<open>
  C9 (method gate). A request with method \<^verbatim>\<open>OPTIONS\<close> is answered with status 204, no
  body and the three CORS headers; a request with any method other than
  \<^verbatim>\<open>OPTIONS\<close> and \<^verbatim>\<open>POST\<close> is answered with status 405 and the body
  \<^verbatim>\<open>{"ok":false,"error":"POST only"}\<close>. Neither makes an outbound call.
\<close>

theorem method_gate:
  \<open>(m = str ''OPTIONS'' \<longrightarrow>
      fetch rt \<lparr>method = m, json = j\<rparr> env =
        (Returns \<lparr>resp_body = None, status = 204,
                   headers =
                     [(str ''Access-Control-Allow-Origin'', str ''*''),
                      (str ''Access-Control-Allow-Methods'', str ''POST,OPTIONS''),
                      (str ''Access-Control-Allow-Headers'', str ''content-type'')]\<rparr>, []))
   \<and> (m \<noteq> str ''OPTIONS'' \<and> m \<noteq> str ''POST'' \<longrightarrow>
      fetch rt \<lparr>method = m, json = j\<rparr> env =
        (Returns \<lparr>resp_body = Some (str ''{"ok":false,"error":"POST only"}''), status = 405,
                   headers = cors @ [(str ''content-type'', str ''application/json'')]\<rparr>, []))\<close>
  by (simp add: fetch_def body_405 cors_def)

theorem method_gate_witness:
  \<open>fetch (demo_runtime (Inl TypeError)) \<lparr>method = str ''OPTIONS'', json = Inl SyntaxError\<rparr>
      demo_env =
        (Returns \<lparr>resp_body = None, status = 204,
                   headers =
                     [(str ''Access-Control-Allow-Origin'', str ''*''),
                      (str ''Access-Control-Allow-Methods'', str ''POST,OPTIONS''),
                      (str ''Access-Control-Allow-Headers'', str ''content-type'')]\<rparr>, [])
   \<and> fetch (demo_runtime (Inl TypeError)) \<lparr>method = str ''GET'', json = Inl SyntaxError\<rparr>
      demo_env =
        (Returns \<lparr>resp_body = Some (str ''{"ok":false,"error":"POST only"}''), status = 405,
                   headers = cors @ [(str ''content-type'', str ''application/json'')]\<rparr>, [])\<close>
proof -
  have get: "str ''GET'' \<noteq> str ''OPTIONS'' \<and> str ''GET'' \<noteq> str ''POST''"
    by (simp add: str_def)
  show ?thesis
    using method_gate [of "str ''OPTIONS''" "demo_runtime (Inl TypeError)" "Inl SyntaxError" demo_env]
      method_gate [of "str ''GET''" "demo_runtime (Inl TypeError)" "Inl SyntaxError" demo_env] get
    by blast
qed

text \<open>
  C8 (unparsable body). A POST request whose body does not parse as JSON, so that
  \<^verbatim>\<open>request.json()\<close> rejects, is answered with status 400 and the body
  \<^verbatim>\<open>{"ok":false,"error":"Invalid JSON"}\<close>, whatever the error and the configuration.
\<close>

theorem invalid_json:
  \<open>fetch rt \<lparr>method = str ''POST'', json = Inl e\<rparr> env =
     (Returns \<lparr>resp_body = Some (str ''{"ok":false,"error":"Invalid JSON"}''), status = 400,
                headers = cors @ [(str ''content-type'', str ''application/json'')]\<rparr>, [])\<close>
  by (simp add: fetch_def post_not_options body_invalid_json)

theorem invalid_json_witness:
  \<open>fetch (demo_runtime (Inl TypeError)) \<lparr>method = str ''POST'', json = Inl SyntaxError\<rparr>
      demo_env =
     (Returns \<lparr>resp_body = Some (str ''{"ok":false,"error":"Invalid JSON"}''), status = 400,
                headers = cors @ [(str ''content-type'', str ''application/json'')]\<rparr>, [])\<close>
  by (rule invalid_json)

text \<open>
  C1 (normalization and validation). The claim promises status 400 with the body
  \<^verbatim>\<open>{"ok":false,"error":"IATA must be 3 letters"}\<close> for every POST request whose body
  parses as JSON and whose normalized field is not three letters. The body
  \<^verbatim>\<open>null\<close> parses as JSON and has no field \<^verbatim>\<open>iata\<close>, yet line 28 reads
  \<^verbatim>\<open>body.iata\<close> outside the \<^verbatim>\<open>try\<close> block: the read throws a TypeError and the
  handler returns no response at all. The same happens in \<^verbatim>\<open>String\<close> for a field
  that cannot be converted, such as \<^verbatim>\<open>{"iata":{"toString":null}}\<close>.
\<close>

theorem null_body_throws:
  "fetch rt \<lparr>method = str ''POST'', json = Inr JNull\<rparr> env = (Throws TypeError, [])
   \<and> fetch rt (demo_request (JObj [(str ''toString'', JNull)])) env = (Throws TypeError, [])"
  by (simp add: fetch_def post_not_options normalize_iata_def demo_request_def)

theorem null_body_throws_witness:
  "fetch (demo_runtime (Inl TypeError)) \<lparr>method = str ''POST'', json = Inr JNull\<rparr> demo_env
     = (Throws TypeError, [])
   \<and> fetch (demo_runtime (Inl TypeError))
        (demo_request (JObj [(str ''toString'', JNull)])) demo_env
     = (Throws TypeError, [])"
  by (rule null_body_throws)

text \<open>
  C3 (outbound contract). A POST request whose body parses, whose normalized code is
  three letters, met by a configuration with five non-empty values, makes the handler
  issue exactly one outbound call, and that call is the one of the contract: the
  address, the method POST, the four headers and the JSON text with the reference and
  the normalized code. This holds whatever the upstream then answers.
\<close>

theorem dispatch_call:
  assumes "normalize_iata (unicode_upper rt) b = Inr code" and "test_AZ3 code"
    and "owner \<noteq> []" and "repo \<noteq> []" and "workflow \<noteq> []" and "ref \<noteq> []"
    and "token \<noteq> []"
  shows "snd (fetch rt \<lparr>method = str ''POST'', json = Inr b\<rparr>
                \<lparr>GH_OWNER = Some owner, GH_REPO = Some repo, GH_WORKFLOW_FILE = Some workflow,
                 GH_WORKFLOW_REF = Some ref, GH_TOKEN = Some token\<rparr>)
         = [dispatch_contract owner repo workflow ref token code]"
  using assms
  by (simp add: fetch_def Let_def post_not_options truthy_def subst_def binding_value_def
      call_eq AZ3_letters split: sum.splits)

theorem dispatch_call_witness:
  "snd (fetch (demo_runtime (Inl TypeError)) (demo_request (JStr (str '' jfk ''))) demo_env)
     = [demo_contract (str ''JFK'')]"
  unfolding demo_request_def demo_env_def demo_contract_def
  by (rule dispatch_call [OF normalize_jfk test_JFK demo_strings_nonempty])

text \<open>
  C2 (success). Under the same conditions, when the upstream answers the call with a
  status from 200 to 299, the handler returns status 200 with the body
  \<^verbatim>\<open>{"ok":true,"dispatched":true,"iata":"<code>"}\<close>, the code being the trimmed,
  upper-cased input: \<^verbatim>\<open>JFK\<close> for the input \<^verbatim>\<open>jfk\<close>.
\<close>

theorem dispatch_success:
  assumes "normalize_iata (unicode_upper rt) b = Inr code" and "test_AZ3 code"
    and "owner \<noteq> []" and "repo \<noteq> []" and "workflow \<noteq> []" and "ref \<noteq> []"
    and "token \<noteq> []"
    and "global_fetch rt (dispatch_contract owner repo workflow ref token code) = Inr r"
    and "r_ok r"
  shows \<open>fst (fetch rt \<lparr>method = str ''POST'', json = Inr b\<rparr>
                \<lparr>GH_OWNER = Some owner, GH_REPO = Some repo, GH_WORKFLOW_FILE = Some workflow,
                 GH_WORKFLOW_REF = Some ref, GH_TOKEN = Some token\<rparr>)
         = Returns \<lparr>resp_body = Some (str ''{"ok":true,"dispatched":true,"iata":"'' @ code
                                        @ str ''"}''),
                    status = 200,
                    headers = cors @ [(str ''content-type'', str ''application/json'')]\<rparr>\<close>
  using assms
  by (simp add: fetch_def Let_def post_not_options truthy_def subst_def binding_value_def
      call_eq body_200 AZ3_letters)

theorem dispatch_success_witness:
  \<open>r_ok \<lparr>r_status = 204, r_text = Inr []\<rparr>
   \<and> fst (fetch (demo_runtime (Inr \<lparr>r_status = 204, r_text = Inr []\<rparr>))
           (demo_request (JStr (str ''jfk''))) demo_env)
     = Returns \<lparr>resp_body = Some (str ''{"ok":true,"dispatched":true,"iata":"JFK"}''),
                status = 200,
                headers = cors @ [(str ''content-type'', str ''application/json'')]\<rparr>\<close>
proof -
  let ?rt = "demo_runtime (Inr \<lparr>r_status = 204, r_text = Inr []\<rparr>)"
  have n: "normalize_iata (unicode_upper ?rt) (JObj [(str ''iata'', JStr (str ''jfk''))])
             = Inr (str ''JFK'')"
    by (simp add: normalize_iata_def str_def trim_def toUpperCase_def ascii_upper_def
        is_white_space_def is_line_terminator_def)
  have a: "global_fetch ?rt c = Inr \<lparr>r_status = 204, r_text = Inr []\<rparr>" for c
    by (simp add: demo_runtime_def)
  have ok: "r_ok \<lparr>r_status = 204, r_text = Inr []\<rparr>"
    by (simp add: r_ok_def)
  have s: \<open>str ''{"ok":true,"dispatched":true,"iata":"'' @ str ''JFK'' @ str ''"}''
             = str ''{"ok":true,"dispatched":true,"iata":"JFK"}''\<close>
    by (simp add: str_def)
  show ?thesis
    using dispatch_success [OF n test_JFK demo_strings_nonempty a ok] ok
    unfolding demo_request_def demo_env_def s by simp
qed

text \<open>
  C4 (upstream failure). Under the same conditions, when the upstream answers the call
  with a status outside 200-299, the handler returns status 502 with the body
  \<^verbatim>\<open>{"ok":false,"error":"GitHub dispatch failed","status":<status>,"detail":<text>}\<close>,
  where the detail is the upstream body read as text, or the empty string when that read
  fails; the failure of the read goes no further.
\<close>

theorem dispatch_failure:
  assumes "normalize_iata (unicode_upper rt) b = Inr code" and "test_AZ3 code"
    and "owner \<noteq> []" and "repo \<noteq> []" and "workflow \<noteq> []" and "ref \<noteq> []"
    and "token \<noteq> []"
    and "global_fetch rt (dispatch_contract owner repo workflow ref token code) = Inr r"
    and "\<not> r_ok r"
  shows \<open>fst (fetch rt \<lparr>method = str ''POST'', json = Inr b\<rparr>
                \<lparr>GH_OWNER = Some owner, GH_REPO = Some repo, GH_WORKFLOW_FILE = Some workflow,
                 GH_WORKFLOW_REF = Some ref, GH_TOKEN = Some token\<rparr>)
         = Returns \<lparr>resp_body =
                      Some (str ''{"ok":false,"error":"GitHub dispatch failed","status":''
                            @ decimal (r_status r) @ str '',"detail":''
                            @ QuoteJSONString (case r_text r of Inl e \<Rightarrow> [] | Inr t \<Rightarrow> t)
                            @ str ''}''),
                    status = 502,
                    headers = cors @ [(str ''content-type'', str ''application/json'')]\<rparr>\<close>
  using assms
  by (simp add: fetch_def Let_def post_not_options truthy_def subst_def binding_value_def
      call_eq body_502 AZ3_letters)

theorem dispatch_failure_witness:
  \<open>\<not> r_ok \<lparr>r_status = 404, r_text = Inr (str ''Not Found'')\<rparr>
   \<and> fst (fetch (demo_runtime (Inr \<lparr>r_status = 404, r_text = Inr (str ''Not Found'')\<rparr>))
           (demo_request (JStr (str '' jfk ''))) demo_env)
     = Returns \<lparr>resp_body =
                  Some (str ''{"ok":false,"error":"GitHub dispatch failed","status":404,"detail":"Not Found"}''),
                status = 502,
                headers = cors @ [(str ''content-type'', str ''application/json'')]\<rparr>
   \<and> fst (fetch (demo_runtime (Inr \<lparr>r_status = 404, r_text = Inl OtherError\<rparr>))
           (demo_request (JStr (str '' jfk ''))) demo_env)
     = Returns \<lparr>resp_body =
                  Some (str ''{"ok":false,"error":"GitHub dispatch failed","status":404,"detail":""}''),
                status = 502,
                headers = cors @ [(str ''content-type'', str ''application/json'')]\<rparr>\<close>
proof -
  let ?r1 = "\<lparr>r_status = 404, r_text = Inr (str ''Not Found'')\<rparr>"
  let ?r2 = "\<lparr>r_status = 404, r_text = Inl OtherError :: js_error + jsstr\<rparr>"
  have a1: "global_fetch (demo_runtime (Inr ?r1)) c = Inr ?r1" for c
    by (simp add: demo_runtime_def)
  have a2: "global_fetch (demo_runtime (Inr ?r2)) c = Inr ?r2" for c
    by (simp add: demo_runtime_def)
  have no1: "\<not> r_ok ?r1" and no2: "\<not> r_ok ?r2"
    by (simp_all add: r_ok_def)
  have s1: \<open>str ''{"ok":false,"error":"GitHub dispatch failed","status":'' @ decimal 404
              @ str '',"detail":'' @ QuoteJSONString (str ''Not Found'') @ str ''}''
            = str ''{"ok":false,"error":"GitHub dispatch failed","status":404,"detail":"Not Found"}''\<close>
    by (simp add: decimal_404) (simp add: eval_defs)
  have s2: \<open>str ''{"ok":false,"error":"GitHub dispatch failed","status":'' @ decimal 404
              @ str '',"detail":'' @ QuoteJSONString [] @ str ''}''
            = str ''{"ok":false,"error":"GitHub dispatch failed","status":404,"detail":""}''\<close>
    by (simp add: decimal_404) (simp add: eval_defs)
  show ?thesis
    using dispatch_failure [OF normalize_jfk test_JFK demo_strings_nonempty a1 no1]
      dispatch_failure [OF normalize_jfk test_JFK demo_strings_nonempty a2 no2] no1
    unfolding demo_request_def demo_env_def by (simp add: s1 s2)
qed

text \<open>
  The configuration check on the requests for which line 28 yields a code. When that code
  is three letters and one of the five bindings is missing or empty, the answer is status
  500 with the body \<^verbatim>\<open>{"ok":false,"error":"Missing env vars/secrets"}\<close>; when the
  code is not three letters the answer is status 400 with the body
  \<^verbatim>\<open>{"ok":false,"error":"IATA must be 3 letters"}\<close>, whatever the configuration.
\<close>

theorem missing_configuration:
  assumes "normalize_iata (unicode_upper rt) b = Inr code"
  shows \<open>(test_AZ3 code
           \<and> {None, Some []} \<inter> {GH_OWNER env, GH_REPO env, GH_WORKFLOW_FILE env,
                                  GH_WORKFLOW_REF env, GH_TOKEN env} \<noteq> {} \<longrightarrow>
           fetch rt \<lparr>method = str ''POST'', json = Inr b\<rparr> env =
             (Returns \<lparr>resp_body = Some (str ''{"ok":false,"error":"Missing env vars/secrets"}''),
                        status = 500,
                        headers = cors @ [(str ''content-type'', str ''application/json'')]\<rparr>,
              []))
         \<and> (\<not> test_AZ3 code \<longrightarrow>
           fetch rt \<lparr>method = str ''POST'', json = Inr b\<rparr> env =
             (Returns \<lparr>resp_body = Some (str ''{"ok":false,"error":"IATA must be 3 letters"}''),
                        status = 400,
                        headers = cors @ [(str ''content-type'', str ''application/json'')]\<rparr>,
              []))\<close>
proof (intro conjI impI)
  assume h: "test_AZ3 code
           \<and> {None, Some []} \<inter> {GH_OWNER env, GH_REPO env, GH_WORKFLOW_FILE env,
                                  GH_WORKFLOW_REF env, GH_TOKEN env} \<noteq> {}"
  then have "\<not> truthy (GH_OWNER env) \<or> \<not> truthy (GH_REPO env)
      \<or> \<not> truthy (GH_WORKFLOW_FILE env) \<or> \<not> truthy (GH_WORKFLOW_REF env)
      \<or> \<not> truthy (GH_TOKEN env)"
    by (auto simp: truthy_def)
  with h assms show \<open>fetch rt \<lparr>method = str ''POST'', json = Inr b\<rparr> env =
             (Returns \<lparr>resp_body = Some (str ''{"ok":false,"error":"Missing env vars/secrets"}''),
                        status = 500,
                        headers = cors @ [(str ''content-type'', str ''application/json'')]\<rparr>,
              [])\<close>
    by (simp add: fetch_def Let_def post_not_options body_500)
next
  assume "\<not> test_AZ3 code"
  with assms show \<open>fetch rt \<lparr>method = str ''POST'', json = Inr b\<rparr> env =
             (Returns \<lparr>resp_body = Some (str ''{"ok":false,"error":"IATA must be 3 letters"}''),
                        status = 400,
                        headers = cors @ [(str ''content-type'', str ''application/json'')]\<rparr>,
              [])\<close>
    by (rule invalid_iata_rejected)
qed

theorem missing_configuration_witness:
  \<open>fetch (demo_runtime (Inl TypeError)) (demo_request (JStr (str '' jfk '')))
      (demo_env\<lparr>GH_TOKEN := Some []\<rparr>) =
     (Returns \<lparr>resp_body = Some (str ''{"ok":false,"error":"Missing env vars/secrets"}''),
                status = 500,
                headers = cors @ [(str ''content-type'', str ''application/json'')]\<rparr>, [])
   \<and> fetch (demo_runtime (Inl TypeError)) (demo_request (JStr (str ''ab1'')))
      \<lparr>GH_OWNER = None, GH_REPO = None, GH_WORKFLOW_FILE = None, GH_WORKFLOW_REF = None,
       GH_TOKEN = None\<rparr> =
     (Returns \<lparr>resp_body = Some (str ''{"ok":false,"error":"IATA must be 3 letters"}''),
                status = 400,
                headers = cors @ [(str ''content-type'', str ''application/json'')]\<rparr>, [])\<close>
proof -
  have m: "{None, Some []} \<inter> {GH_OWNER (demo_env\<lparr>GH_TOKEN := Some []\<rparr>),
             GH_REPO (demo_env\<lparr>GH_TOKEN := Some []\<rparr>),
             GH_WORKFLOW_FILE (demo_env\<lparr>GH_TOKEN := Some []\<rparr>),
             GH_WORKFLOW_REF (demo_env\<lparr>GH_TOKEN := Some []\<rparr>),
             GH_TOKEN (demo_env\<lparr>GH_TOKEN := Some []\<rparr>)} \<noteq> {}"
    by simp
  show ?thesis
    using missing_configuration [OF normalize_jfk, where rt = "demo_runtime (Inl TypeError)"
        and env = "demo_env\<lparr>GH_TOKEN := Some []\<rparr>"]
      missing_configuration [OF normalize_ab1, where rt = "demo_runtime (Inl TypeError)"
        and env = "\<lparr>GH_OWNER = None, GH_REPO = None, GH_WORKFLOW_FILE = None,
          GH_WORKFLOW_REF = None, GH_TOKEN = None\<rparr>"]
      test_JFK test_AB1 m
    unfolding demo_request_def by blast
qed

text \<open>
  C5 (configuration check after validation). The claim promises status 500 for a valid
  code under a configuration with a missing or empty binding, and status 400 for every
  POST request with an invalid code even when the configuration is missing. The first
  half holds. The second half fails on the requests whose line 28 throws: the body
  \<^verbatim>\<open>null\<close> carries no valid code, yet with all five bindings missing the handler
  throws a TypeError at \<^verbatim>\<open>body.iata\<close> and returns neither 400 nor any other
  response; so does the body \<^verbatim>\<open>{"iata":{"toString":null}}\<close> in \<^verbatim>\<open>String\<close>. This
  is the defect of C1, met here under a missing configuration.
\<close>

theorem unconfigured_null_body_throws:
  \<open>fetch rt \<lparr>method = str ''POST'', json = Inr JNull\<rparr>
      \<lparr>GH_OWNER = None, GH_REPO = None, GH_WORKFLOW_FILE = None, GH_WORKFLOW_REF = None,
       GH_TOKEN = None\<rparr>
     = (Throws TypeError, [])
   \<and> fetch rt (demo_request (JObj [(str ''toString'', JNull)]))
      \<lparr>GH_OWNER = None, GH_REPO = None, GH_WORKFLOW_FILE = None, GH_WORKFLOW_REF = None,
       GH_TOKEN = None\<rparr>
     = (Throws TypeError, [])
   \<and> fst (fetch rt \<lparr>method = str ''POST'', json = Inr JNull\<rparr>
      \<lparr>GH_OWNER = None, GH_REPO = None, GH_WORKFLOW_FILE = None, GH_WORKFLOW_REF = None,
       GH_TOKEN = None\<rparr>)
     \<noteq> Returns \<lparr>resp_body = Some (str ''{"ok":false,"error":"IATA must be 3 letters"}''),
                  status = 400,
                  headers = cors @ [(str ''content-type'', str ''application/json'')]\<rparr>\<close>
  by (simp add: fetch_def post_not_options normalize_iata_def demo_request_def)

theorem unconfigured_null_body_throws_witness:
  \<open>fetch (demo_runtime (Inl TypeError)) \<lparr>method = str ''POST'', json = Inr JNull\<rparr>
      \<lparr>GH_OWNER = None, GH_REPO = None, GH_WORKFLOW_FILE = None, GH_WORKFLOW_REF = None,
       GH_TOKEN = None\<rparr>
     = (Throws TypeError, [])
   \<and> fetch (demo_runtime (Inl TypeError)) (demo_request (JObj [(str ''toString'', JNull)]))
      \<lparr>GH_OWNER = None, GH_REPO = None, GH_WORKFLOW_FILE = None, GH_WORKFLOW_REF = None,
       GH_TOKEN = None\<rparr>
     = (Throws TypeError, [])
   \<and> fst (fetch (demo_runtime (Inl TypeError)) \<lparr>method = str ''POST'', json = Inr JNull\<rparr>
      \<lparr>GH_OWNER = None, GH_REPO = None, GH_WORKFLOW_FILE = None, GH_WORKFLOW_REF = None,
       GH_TOKEN = None\<rparr>)
     \<noteq> Returns \<lparr>resp_body = Some (str ''{"ok":false,"error":"IATA must be 3 letters"}''),
                  status = 400,
                  headers = cors @ [(str ''content-type'', str ''application/json'')]\<rparr>\<close>
  by (rule unconfigured_null_body_throws)

text \<open>
  C6 (CORS on every response). Every response the handler returns to a request whose
  method is not \<^verbatim>\<open>OPTIONS\<close> has one of the statuses 405, 400, 500, 502, 200 and
  carries exactly the three CORS headers followed by
  \<^verbatim>\<open>content-type: application/json\<close>.
\<close>

theorem cors_on_every_response:
  assumes "fetch rt request env = (Returns resp, calls)"
    and "method request \<noteq> str ''OPTIONS''"
  shows "headers resp =
           [(str ''Access-Control-Allow-Origin'', str ''*''),
            (str ''Access-Control-Allow-Methods'', str ''POST,OPTIONS''),
            (str ''Access-Control-Allow-Headers'', str ''content-type''),
            (str ''content-type'', str ''application/json'')]
         \<and> status resp \<in> {405, 400, 500, 502, 200}"
  using assms
  by (auto simp add: fetch_def Let_def cors_def split: if_splits sum.splits)

theorem cors_on_every_response_witness:
  \<open>\<exists>resp calls.
      fetch (demo_runtime (Inr \<lparr>r_status = 204, r_text = Inr []\<rparr>))
        (demo_request (JStr (str '' jfk ''))) demo_env = (Returns resp, calls)
      \<and> status resp = 200
      \<and> headers resp =
           [(str ''Access-Control-Allow-Origin'', str ''*''),
            (str ''Access-Control-Allow-Methods'', str ''POST,OPTIONS''),
            (str ''Access-Control-Allow-Headers'', str ''content-type''),
            (str ''content-type'', str ''application/json'')]\<close>
proof -
  let ?rt = "demo_runtime (Inr \<lparr>r_status = 204, r_text = Inr []\<rparr>)"
  let ?rq = "demo_request (JStr (str '' jfk ''))"
  obtain resp calls where run: "fetch ?rt ?rq demo_env = (Returns resp, calls)"
    and st: "status resp = 200"
    by (simp add: fetch_def Let_def demo_request_def post_not_options normalize_jfk test_JFK
        demo_env_def truthy_def demo_strings_nonempty demo_runtime_def r_ok_def)
  have m: "method ?rq \<noteq> str ''OPTIONS''"
    by (simp add: demo_request_def post_not_options)
  from cors_on_every_response [OF run m] run st show ?thesis by blast
qed

text \<open>
  C7 (the token is not echoed). Take two runs on the same request that differ only in
  the non-empty value of \<^verbatim>\<open>GH_TOKEN\<close>, against an upstream whose answer does not
  depend on the \<^verbatim>\<open>Authorization\<close> header (the same upstream response in both runs).
  Then both runs end the same way, with the same status, headers and body, and the
  outbound calls of the two runs agree in everything but the \<^verbatim>\<open>Authorization\<close> header.
\<close>

theorem token_noninterference:
  assumes "t1 \<noteq> []" and "t2 \<noteq> []"
    and "\<And>c c'. without_authorization c = without_authorization c'
           \<Longrightarrow> global_fetch rt c = global_fetch rt c'"
  shows "fst (fetch rt request (env\<lparr>GH_TOKEN := Some t1\<rparr>))
           = fst (fetch rt request (env\<lparr>GH_TOKEN := Some t2\<rparr>))
         \<and> map without_authorization (snd (fetch rt request (env\<lparr>GH_TOKEN := Some t1\<rparr>)))
           = map without_authorization (snd (fetch rt request (env\<lparr>GH_TOKEN := Some t2\<rparr>)))"
proof -
  have same: "global_fetch rt
        \<lparr>out_url = u, out_method = m,
         out_headers = (str ''Authorization'', str ''Bearer '' @ t1) # hs, out_body = bd\<rparr>
      = global_fetch rt
        \<lparr>out_url = u, out_method = m,
         out_headers = (str ''Authorization'', str ''Bearer '' @ t2) # hs, out_body = bd\<rparr>"
    for u m hs bd
    by (rule assms(3)) (simp add: without_authorization_def)
  show ?thesis
    using assms(1,2)
    by (simp add: fetch_def Let_def truthy_def subst_def same without_authorization_def
        split: sum.splits)
qed

theorem token_noninterference_witness:
  \<open>fst (fetch (demo_runtime (Inr \<lparr>r_status = 401, r_text = Inr (str ''Bad credentials'')\<rparr>))
          (demo_request (JStr (str '' jfk ''))) (demo_env\<lparr>GH_TOKEN := Some (str ''ghp_one'')\<rparr>))
     = fst (fetch (demo_runtime (Inr \<lparr>r_status = 401, r_text = Inr (str ''Bad credentials'')\<rparr>))
          (demo_request (JStr (str '' jfk ''))) (demo_env\<lparr>GH_TOKEN := Some (str ''ghp_two'')\<rparr>))
   \<and> map without_authorization
       (snd (fetch (demo_runtime (Inr \<lparr>r_status = 401, r_text = Inr (str ''Bad credentials'')\<rparr>))
          (demo_request (JStr (str '' jfk ''))) (demo_env\<lparr>GH_TOKEN := Some (str ''ghp_one'')\<rparr>)))
     = map without_authorization
       (snd (fetch (demo_runtime (Inr \<lparr>r_status = 401, r_text = Inr (str ''Bad credentials'')\<rparr>))
          (demo_request (JStr (str '' jfk ''))) (demo_env\<lparr>GH_TOKEN := Some (str ''ghp_two'')\<rparr>)))\<close>
proof -
  have t: "str ''ghp_one'' \<noteq> []" "str ''ghp_two'' \<noteq> []"
    by (simp_all add: str_def)
  have a: "global_fetch (demo_runtime x) c = global_fetch (demo_runtime x) c'" for x c c'
    by (simp add: demo_runtime_def)
  show ?thesis
    by (rule token_noninterference [OF t a])
qed

text \<open>
  C10 (no dispatch on rejection). A run that returns a response with status 405, 400 or
  500 has made no outbound call; and a run that has made an outbound call was a POST whose
  body parsed, whose normalized code is three letters, and whose configuration has all
  five values set and non-empty.
\<close>

theorem no_dispatch_on_rejection:
  assumes "fetch rt request env = (outcome, calls)"
  shows "((\<exists>resp. outcome = Returns resp \<and> status resp \<in> {405, 400, 500}) \<longrightarrow> calls = [])
         \<and> (calls \<noteq> [] \<longrightarrow>
              method request = str ''POST''
              \<and> (\<exists>b code. json request = Inr b
                    \<and> normalize_iata (unicode_upper rt) b = Inr code \<and> test_AZ3 code)
              \<and> truthy (GH_OWNER env) \<and> truthy (GH_REPO env) \<and> truthy (GH_WORKFLOW_FILE env)
              \<and> truthy (GH_WORKFLOW_REF env) \<and> truthy (GH_TOKEN env))"
  using assms
  by (auto simp add: fetch_def Let_def split: if_splits sum.splits)

theorem no_dispatch_on_rejection_witness:
  \<open>snd (fetch (demo_runtime (Inl TypeError)) (demo_request (JStr (str ''ab1''))) demo_env) = []
   \<and> snd (fetch (demo_runtime (Inl TypeError)) (demo_request (JStr (str '' jfk ''))) demo_env)
       \<noteq> []
   \<and> truthy (GH_TOKEN demo_env)\<close>
proof -
  let ?rt = "demo_runtime (Inl TypeError)"
  have bad: \<open>fetch ?rt (demo_request (JStr (str ''ab1''))) demo_env =
     (Returns \<lparr>resp_body = Some (str ''{"ok":false,"error":"IATA must be 3 letters"}''),
                status = 400,
                headers = cors @ [(str ''content-type'', str ''application/json'')]\<rparr>, [])\<close>
    by (simp add: fetch_def demo_request_def post_not_options normalize_ab1 test_AB1 body_iata)
  obtain c where good: "fetch ?rt (demo_request (JStr (str '' jfk ''))) demo_env
     = (Throws TypeError, [c])"
    by (simp add: fetch_def Let_def demo_request_def post_not_options normalize_jfk test_JFK
        demo_env_def truthy_def demo_strings_nonempty demo_runtime_def)
  from no_dispatch_on_rejection [OF bad] no_dispatch_on_rejection [OF good] bad good
  show ?thesis by simp
qed

end
